theory Spec2Isabelle
  imports Main
begin

section \<open>Go values shared by both scanners\<close>

text \<open>
  A Go \<^verbatim>\<open>string\<close> and a \<^verbatim>\<open>[]byte\<close> are byte sequences: \<^typ>\<open>string\<close> (a list of
  8-bit characters).
\<close>

type_synonym bytes = string

text \<open>
  Go errors. \<open>EOF\<close> is \<^verbatim>\<open>io.EOF\<close>; \<open>Err msg\<close> is any other plain error value;
  \<open>Wrapf msg e\<close> is \<^verbatim>\<open>fmt.Errorf(msg + ": %w", e)\<close>, where \<open>e\<close> may be the nil error.
\<close>

datatype go_error = EOF | Err string | Wrapf string "go_error option"

text \<open>\<^verbatim>\<open>errors.Is(err, io.EOF)\<close>: follows the chain of wrapped errors.\<close>

fun errors_Is_EOF :: "go_error option \<Rightarrow> bool" where
  "errors_Is_EOF None = False"
| "errors_Is_EOF (Some EOF) = True"
| "errors_Is_EOF (Some (Err m)) = False"
| "errors_Is_EOF (Some (Wrapf m e)) = errors_Is_EOF e"

text \<open>
  The result of a Go function that may panic: \<open>Return\<close> holds what the call returns,
  \<open>Panic\<close> the value the call panics with.
\<close>

datatype 'a outcome = Return 'a | Panic string

section \<open>Package strings and path/filepath (Unix: the separator is a slash)\<close>

definition Separator :: char where
  "Separator = CHR ''/''"

text \<open>\<^verbatim>\<open>strings.HasPrefix\<close>, \<^verbatim>\<open>strings.HasSuffix\<close>, \<^verbatim>\<open>strings.TrimSuffix\<close>.\<close>

definition HasPrefix :: "string \<Rightarrow> string \<Rightarrow> bool" where
  "HasPrefix s pre = (length pre \<le> length s \<and> take (length pre) s = pre)"

definition HasSuffix :: "string \<Rightarrow> string \<Rightarrow> bool" where
  "HasSuffix s suf = (length suf \<le> length s \<and> drop (length s - length suf) s = suf)"

definition TrimSuffix :: "string \<Rightarrow> string \<Rightarrow> string" where
  "TrimSuffix s suf = (if HasSuffix s suf then take (length s - length suf) s else s)"

text \<open>
  \<^verbatim>\<open>if i := strings.IndexRune(n, ':'); i != -1 { n = n[:i] }\<close>: the string up to its
  first colon, the whole string when it has none.
\<close>

definition cut_at_colon :: "string \<Rightarrow> string" where
  "cut_at_colon n = takeWhile (\<lambda>c. c \<noteq> CHR '':'') n"

text \<open>
  The elements of a path between its separators (\<^verbatim>\<open>strings.Split(path, "/")\<close>): the
  element under construction is the first argument.
\<close>

fun split_sep :: "string \<Rightarrow> string \<Rightarrow> string list" where
  "split_sep cur [] = [cur]"
| "split_sep cur (c # cs) =
     (if c = Separator then cur # split_sep [] cs else split_sep (cur @ [c]) cs)"

fun join_sep :: "string list \<Rightarrow> string" where
  "join_sep [] = []"
| "join_sep [e] = e"
| "join_sep (e # es) = e @ Separator # join_sep es"

text \<open>
  \<^verbatim>\<open>filepath.Clean\<close>. Go walks the path element by element and writes into a buffer
  \<open>out\<close>; the model keeps the elements written so far, the last one first. An empty
  element and \<open>.\<close> are skipped. On \<open>..\<close>: when the buffer ends in a real element
  (\<^verbatim>\<open>out.w > dotdot\<close>) that element is removed; otherwise \<open>..\<close> is appended when
  the path is not rooted, and dropped when it is. The elements below \<^verbatim>\<open>dotdot\<close> are the
  leading \<open>..\<close> elements, so "the buffer ends in a real element" is "the last element
  written is not \<open>..\<close>".
\<close>

fun clean_elems :: "bool \<Rightarrow> string list \<Rightarrow> string list \<Rightarrow> string list" where
  "clean_elems rooted out [] = rev out"
| "clean_elems rooted out (e # es) =
     (if e = [] \<or> e = ''.'' then clean_elems rooted out es
      else if e = ''..'' then
        (case out of
           [] \<Rightarrow> clean_elems rooted (if rooted then [] else [''..'']) es
         | w # ws \<Rightarrow>
             if w \<noteq> ''..'' then clean_elems rooted ws es
             else clean_elems rooted (if rooted then out else ''..'' # out) es)
      else clean_elems rooted (e # out) es)"

definition Clean :: "string \<Rightarrow> string" where
  "Clean path =
     (if path = [] then ''.''
      else
        let rooted = (hd path = Separator);
            out = join_sep (clean_elems rooted [] (split_sep [] path))
        in if rooted then Separator # out
           else if out = [] then ''.'' else out)"

text \<open>
  \<^verbatim>\<open>filepath.Base\<close>: the last element of the path, after the trailing separators are
  stripped; \<open>.\<close> for the empty path and the separator for a path of separators only.
\<close>

definition strip_trailing_sep :: "string \<Rightarrow> string" where
  "strip_trailing_sep path = rev (dropWhile (\<lambda>c. c = Separator) (rev path))"

definition last_elem :: "string \<Rightarrow> string" where
  "last_elem path = rev (takeWhile (\<lambda>c. c \<noteq> Separator) (rev path))"

definition Base :: "string \<Rightarrow> string" where
  "Base path =
     (if path = [] then ''.''
      else
        let p = last_elem (strip_trailing_sep path)
        in if p = [] then [Separator] else p)"

text \<open>
  \<^verbatim>\<open>filepath.Dir\<close>: \<open>Clean\<close> of the path up to and including its last separator.
\<close>

definition Dir :: "string \<Rightarrow> string" where
  "Dir path = Clean (rev (dropWhile (\<lambda>c. c \<noteq> Separator) (rev path)))"

text \<open>
  \<^verbatim>\<open>filepath.Join(a, b)\<close>: the leading empty elements are dropped, the rest joined with
  the separator and cleaned; the empty string when every element is empty.
\<close>

definition Join :: "string \<Rightarrow> string \<Rightarrow> string" where
  "Join a b =
     (if a \<noteq> [] then Clean (a @ Separator # b)
      else if b \<noteq> [] then Clean b
      else [])"

section \<open>The dpkg package scanner (dpkg/scanner.go)\<close>

subsection \<open>The layer archive\<close>

text \<open>
  One entry of the tar archive as \<^verbatim>\<open>tar.Reader\<close> delivers it: the header's \<^verbatim>\<open>Name\<close> and
  \<^verbatim>\<open>Typeflag\<close>, the bytes of the entry, and the error a read of the entry's bytes ends
  with when it is not \<^verbatim>\<open>io.EOF\<close> (\<open>None\<close>: the bytes are read to the end).
\<close>

record tar_entry =
  hdr_Name :: string
  hdr_Typeflag :: char
  content :: bytes
  read_err :: "go_error option"

definition TypeReg :: char where
  "TypeReg = CHR ''0''"

text \<open>
  What \<open>Scan\<close> does with its layer: \<^verbatim>\<open>layer.Reader()\<close> (its error, if any), the type
  assertion to \<^verbatim>\<open>io.ReadSeeker\<close>, \<^verbatim>\<open>r.Seek(0, io.SeekStart)\<close> (the offset and the error
  it returns) and the passes of \<^verbatim>\<open>tar.Reader.Next\<close> over the archive, which deliver the
  entries in archive order and then the error \<open>end_err\<close> (\<^verbatim>\<open>io.EOF\<close> at the regular end
  of an archive). A layer is immutable: every pass reads the same archive.
\<close>

record layer =
  Reader_err :: "go_error option"
  is_ReadSeeker :: bool
  Seek_start :: "int \<times> go_error option"
  entries :: "tar_entry list"
  end_err :: go_error

subsection \<open>Packages\<close>

text \<open>
  One stanza as the status-file parser (\<^verbatim>\<open>dpkg.NewParser(db).Parse()\<close>, a third-party
  library) returns it; the scanner reads these four fields.
\<close>

record stanza =
  dpkg_Package :: string
  dpkg_Version :: string
  dpkg_Architecture :: string
  dpkg_Source :: string

datatype pkg_kind = BINARY | SOURCE

text \<open>
  \<^verbatim>\<open>claircore.Package\<close>, with the fields the scanner sets; \<open>Source\<close> is a pointer
  (\<open>None\<close> is nil), a string field that is not set is empty.
\<close>

datatype package = Package
  (Name: string) (Version: string) (Kind: pkg_kind) (Source: "package option")
  (PackageDB: string) (RepositoryHint: string) (Arch: string)

text \<open>Lines 152 to 169: the package built from one stanza of the database \<open>fn\<close>.\<close>

definition new_package :: "string \<Rightarrow> stanza \<Rightarrow> package" where
  "new_package fn pkg =
     Package (dpkg_Package pkg) (dpkg_Version pkg) BINARY
       (if dpkg_Source pkg \<noteq> []
        then Some (Package (dpkg_Source pkg) (dpkg_Version pkg) SOURCE None fn [] [])
        else None)
       fn [] (dpkg_Architecture pkg)"

text \<open>
  Lines 150 to 173. \<open>pkgs\<close> is the slice of package pointers; a pointer is the index of
  its package in \<open>pkgs\<close>, so the map \<open>found\<close> from names to pointers is a map from names
  to indices and both refer to the same package.
\<close>

fun add_packages ::
  "string \<Rightarrow> stanza list \<Rightarrow> (string \<rightharpoonup> nat) \<times> package list \<Rightarrow> (string \<rightharpoonup> nat) \<times> package list"
where
  "add_packages fn [] st = st"
| "add_packages fn (pkg # rest) (found, pkgs) =
     (let p = new_package fn pkg
      in add_packages fn rest (found(Name p \<mapsto> length pkgs), pkgs @ [p]))"

subsection \<open>The locate pass (lines 87 to 104)\<close>

text \<open>\<^verbatim>\<open>loc[k]++\<close> on a map from directories to scores, kept as an association list.\<close>

fun incr :: "string \<Rightarrow> (string \<times> int) list \<Rightarrow> (string \<times> int) list" where
  "incr k [] = [(k, 1)]"
| "incr k ((k', v) # m) = (if k = k' then (k', v + 1) # m else (k', v) # incr k m)"

definition counted :: "tar_entry \<Rightarrow> bool" where
  "counted h =
     ((Base (hdr_Name h) = ''status'' \<or> Base (hdr_Name h) = ''available'')
      \<and> hdr_Typeflag h = TypeReg)"

fun locate ::
  "tar_entry list \<Rightarrow> go_error \<Rightarrow> (string \<times> int) list \<Rightarrow> go_error + (string \<times> int) list"
where
  "locate [] e loc =
     (if e = EOF then Inr loc else Inl (Wrapf ''reading next header failed'' (Some e)))"
| "locate (h # hs) e loc =
     locate hs e (if counted h then incr (Dir (hdr_Name h)) loc else loc)"

subsection \<open>The extract passes (lines 118 to 207)\<close>

text \<open>
  Lines 128 to 134: the search for the status file. The result is the pair of \<open>err\<close>
  and \<open>db\<close> after the loop: the loop ends at the first entry whose cleaned name is
  \<open>fn\<close> (\<open>db\<close> is the reader at that entry, \<open>err\<close> is nil) or with the error of
  \<^verbatim>\<open>tr.Next()\<close> (\<open>db\<close> is still nil).
\<close>

fun find_status ::
  "string \<Rightarrow> tar_entry list \<Rightarrow> go_error \<Rightarrow> go_error option \<times> tar_entry option"
where
  "find_status fn [] e = (Some e, None)"
| "find_status fn (h # hs) e =
     (if Clean (hdr_Name h) = fn then (None, Some h) else find_status fn hs e)"

definition hextable :: string where
  "hextable = ''0123456789abcdef''"

text \<open>\<^verbatim>\<open>hex.EncodeToString\<close>.\<close>

fun EncodeToString :: "bytes \<Rightarrow> string" where
  "EncodeToString [] = []"
| "EncodeToString (b # bs) =
     hextable ! (of_char b div 16) # hextable ! (of_char b mod 16) # EncodeToString bs"

definition suffix :: string where
  "suffix = ''.md5sums''"

fun set_RepositoryHint :: "package \<Rightarrow> string \<Rightarrow> package" where
  "set_RepositoryHint (Package n v k s db hint a) hint' = Package n v k s db hint' a"

text \<open>
  Lines 182 to 207: the pass over the metadata files. \<open>md5\<close> is the digest
  (\<^verbatim>\<open>md5.New\<close>, \<^verbatim>\<open>io.Copy\<close>, \<^verbatim>\<open>hash.Sum(nil)\<close>) of the standard library. The error the
  loop ends with is not looked at.
\<close>

fun add_hints ::
  "(bytes \<Rightarrow> bytes) \<Rightarrow> string \<Rightarrow> (string \<rightharpoonup> nat) \<Rightarrow> tar_entry list \<Rightarrow> package list
     \<Rightarrow> package list"
where
  "add_hints md5 prefix found [] pkgs = pkgs"
| "add_hints md5 prefix found (h # hs) pkgs =
     (if \<not> HasPrefix (hdr_Name h) prefix \<or> \<not> HasSuffix (hdr_Name h) suffix
      then add_hints md5 prefix found hs pkgs
      else
        let n = cut_at_colon (TrimSuffix (Base (hdr_Name h)) suffix)
        in case found n of
             None \<Rightarrow> add_hints md5 prefix found hs pkgs
           | Some i \<Rightarrow>
               if read_err h \<noteq> None then add_hints md5 prefix found hs pkgs
               else add_hints md5 prefix found hs
                      (pkgs[i := set_RepositoryHint (pkgs ! i)
                                   (EncodeToString (md5 (content h)))]))"

text \<open>
  What one round of the loop over \<open>loc\<close> (lines 109 to 211) ends with: the next round,
  with the packages so far, or the end of \<open>Scan\<close>.
\<close>

type_synonym scan_result = "(package list option \<times> go_error option) outcome"

datatype round = Next "package list" | Stop scan_result

definition seek_failed :: "layer \<Rightarrow> bool" where
  "seek_failed l = (fst (Seek_start l) \<noteq> 0 \<or> snd (Seek_start l) \<noteq> None)"

definition examine ::
  "(bytes \<Rightarrow> stanza list) \<Rightarrow> (bytes \<Rightarrow> bytes) \<Rightarrow> layer \<Rightarrow> string \<Rightarrow> package list \<Rightarrow> round"
where
  "examine parser md5 l p pkgs =
     (if seek_failed l
      then Stop (Return (None, Some (Wrapf ''unable to seek reader'' (snd (Seek_start l)))))
      else
        let fn = Join p ''status'';
            (err, db) = find_status fn (entries l) (end_err l)
        in if errors_Is_EOF err then Stop (Return (None, None))
           else if err \<noteq> None
           then Stop (Return (None, Some (Wrapf ''reading status file from layer failed'' err)))
           else
             (case db of
                None \<Rightarrow> Stop (Panic ''file existed, but now doesn't'')
              | Some d \<Rightarrow>
                  let (found, pkgs') = add_packages fn (parser (content d)) (Map.empty, pkgs)
                  in if seek_failed l
                     then Stop (Return (None,
                            Some (Wrapf ''resetting tar reader failed'' (snd (Seek_start l)))))
                     else Next (add_hints md5 (Join p ''info'' @ [Separator]) found
                                  (entries l) pkgs')))"

text \<open>
  \<^verbatim>\<open>var pkgs []*claircore.Package\<close> is nil until the first \<^verbatim>\<open>append\<close>: the slice
  returned is nil (\<open>None\<close>) exactly when no package was appended.
\<close>

definition slice_of :: "package list \<Rightarrow> package list option" where
  "slice_of pkgs = (if pkgs = [] then None else Some pkgs)"

fun range_loc ::
  "(bytes \<Rightarrow> stanza list) \<Rightarrow> (bytes \<Rightarrow> bytes) \<Rightarrow> layer \<Rightarrow> (string \<times> int) list \<Rightarrow> package list
     \<Rightarrow> scan_result"
where
  "range_loc parser md5 l [] pkgs = Return (slice_of pkgs, None)"
| "range_loc parser md5 l ((p, x) # rest) pkgs =
     (if x \<noteq> 2 then range_loc parser md5 l rest pkgs
      else
        (case examine parser md5 l p pkgs of
           Stop r \<Rightarrow> r
         | Next pkgs' \<Rightarrow> range_loc parser md5 l rest pkgs'))"

text \<open>
  \<open>Scanner.Scan\<close>. Its parameters besides the layer are the status-file parser and the
  digest, both of libraries outside the repository, and \<open>rng\<close>, the order in which
  \<^verbatim>\<open>for p, x := range loc\<close> visits the entries of the map: Go leaves the iteration order
  of a map unspecified, so \<open>rng loc\<close> is some permutation of \<open>loc\<close>.
\<close>

definition dpkg_Scan ::
  "(bytes \<Rightarrow> stanza list) \<Rightarrow> (bytes \<Rightarrow> bytes) \<Rightarrow> ((string \<times> int) list \<Rightarrow> (string \<times> int) list)
     \<Rightarrow> layer \<Rightarrow> scan_result"
where
  "dpkg_Scan parser md5 rng l =
     (case Reader_err l of
        Some e \<Rightarrow> Return (None, Some (Wrapf ''opening layer failed'' (Some e)))
      | None \<Rightarrow>
          if \<not> is_ReadSeeker l
          then Return (None, Some (Wrapf ''opening layer failed''
                 (Some (Err ''unable to coerce to io.Seeker''))))
          else
            (case locate (entries l) (end_err l) [] of
               Inl e \<Rightarrow> Return (None, Some e)
             | Inr loc \<Rightarrow> range_loc parser md5 l (rng loc) []))"


subsection \<open>Archives, a parser and a digest to run the scanner on\<close>

text \<open>
  The theorems below hold for every parser, every digest and every order of the visit.
  A run of the scanner on a concrete layer needs closed terms for them: the runs use
  the parser \<open>status_parser\<close>, which reads the wire format of a status file (stanzas
  separated by empty lines, each line a field name, a colon, a space and the value),
  and \<open>digest_stub\<close> in place of the digest. \<open>digest_stub\<close> is not MD5; it stands
  where the value of the digest does not matter.
\<close>

definition newline :: char where
  "newline = CHR 0x0A"

definition text_lines :: "string list \<Rightarrow> bytes" where
  "text_lines ls = concat (map (\<lambda>l. l @ [newline]) ls)"

fun split_lines :: "string \<Rightarrow> bytes \<Rightarrow> string list" where
  "split_lines cur [] = (if cur = [] then [] else [cur])"
| "split_lines cur (c # cs) =
     (if c = newline then cur # split_lines [] cs else split_lines (cur @ [c]) cs)"

fun group_stanzas :: "string list \<Rightarrow> string list \<Rightarrow> string list list" where
  "group_stanzas cur [] = (if cur = [] then [] else [cur])"
| "group_stanzas cur (l # ls) =
     (if l = [] then (if cur = [] then group_stanzas [] ls else cur # group_stanzas [] ls)
      else group_stanzas (cur @ [l]) ls)"

definition field_value :: "string \<Rightarrow> string list \<Rightarrow> string" where
  "field_value key ls =
     (case filter (\<lambda>l. HasPrefix l (key @ '': '')) ls of
        [] \<Rightarrow> []
      | l # _ \<Rightarrow> drop (length key + 2) l)"

definition status_parser :: "bytes \<Rightarrow> stanza list" where
  "status_parser db =
     map (\<lambda>ls. \<lparr>dpkg_Package = field_value ''Package'' ls,
                dpkg_Version = field_value ''Version'' ls,
                dpkg_Architecture = field_value ''Architecture'' ls,
                dpkg_Source = field_value ''Source'' ls\<rparr>)
       (group_stanzas [] (split_lines [] db))"

definition digest_stub :: "bytes \<Rightarrow> bytes" where
  "digest_stub data = replicate 16 (CHR 0x00)"

text \<open>A regular file of an archive, and the layer of a readable, seekable archive.\<close>

definition regular_file :: "string \<Rightarrow> bytes \<Rightarrow> tar_entry" where
  "regular_file name data =
     \<lparr>hdr_Name = name, hdr_Typeflag = TypeReg, content = data, read_err = None\<rparr>"

definition archive_layer :: "tar_entry list \<Rightarrow> layer" where
  "archive_layer es =
     \<lparr>Reader_err = None, is_ReadSeeker = True, Seek_start = (0, None), entries = es,
      end_err = EOF\<rparr>"

definition foo_status :: bytes where
  "foo_status = text_lines [''Package: foo'', ''Version: 1.0'', ''Architecture: amd64'']"

definition foo_bar_status :: bytes where
  "foo_bar_status =
     text_lines [''Package: foo'', ''Version: 1.0'', ''Architecture: amd64'', ''Source: bar'']"





text \<open>
  A database of the package \<open>foo\<close> with its metadata file, under names as
  \<^verbatim>\<open>filepath.Clean\<close> leaves them and under the same names with \<open>./\<close> in front.
\<close>

definition foo_layer :: layer where
  "foo_layer =
     archive_layer
       [regular_file ''var/lib/dpkg/status'' foo_status,
        regular_file ''var/lib/dpkg/available'' [],
        regular_file ''var/lib/dpkg/info/foo.md5sums'' ''abc'']"

definition dot_foo_layer :: layer where
  "dot_foo_layer =
     archive_layer
       [regular_file ''./var/lib/dpkg/status'' foo_status,
        regular_file ''./var/lib/dpkg/available'' [],
        regular_file ''./var/lib/dpkg/info/foo.md5sums'' ''abc'']"

text \<open>Archives that hold one of the two file names twice, and no file of the other name.\<close>

definition unclean_available_layer :: layer where
  "unclean_available_layer =
     archive_layer
       [regular_file ''opt/dpkg/available'' [],
        regular_file ''./opt/dpkg/available'' []]"

definition status_twice_layer :: layer where
  "status_twice_layer =
     archive_layer
       [regular_file ''var/lib/dpkg/status'' foo_status,
        regular_file ''var/lib/dpkg/status'' foo_status]"


text \<open>Two databases, in the directories \<open>a\<close> and \<open>b\<close>.\<close>

definition two_databases_layer :: layer where
  "two_databases_layer =
     archive_layer
       [regular_file ''a/status'' foo_status,
        regular_file ''a/available'' [],
        regular_file ''b/status'' foo_bar_status,
        regular_file ''b/available'' []]"



text \<open>
  A regular file whose name ends in the separator, \<^verbatim>\<open>d/status/\<close>, and the file
  \<^verbatim>\<open>d/status/available\<close>.
\<close>

definition lost_status_layer :: layer where
  "lost_status_layer =
     archive_layer
       [regular_file ''d/status/'' foo_status,
        regular_file ''d/status/available'' []]"

section \<open>The Ubuntu distribution scanner (ubuntu/distributionscanner.go)\<close>

text \<open>The releases the signature list names (the type \<^verbatim>\<open>Release\<close> of package ubuntu).\<close>

datatype Release =
  Artful | Bionic | Cosmic | Disco | Precise | Trusty | Xenial | Eoan | Focal | Impish

record ubuntuRegex =
  release :: Release
  regexp :: string

text \<open>
  The source text of a signature,
  \<^verbatim>\<open>(?is)\bubuntu\b.*\b\<close>\<open>codename\<close>\<^verbatim>\<open>\b\<close>; \<open>bb\<close> is the two characters
  backslash and b.
\<close>

definition bb :: string where
  "bb = [CHR 0x5C, CHR ''b'']"

definition signature :: "string \<Rightarrow> string" where
  "signature codename = ''(?is)'' @ bb @ ''ubuntu'' @ bb @ ''.*'' @ bb @ codename @ bb"

definition ubuntuRegexes :: "ubuntuRegex list" where
  "ubuntuRegexes =
     [\<lparr>release = Artful, regexp = signature ''artful''\<rparr>,
      \<lparr>release = Bionic, regexp = signature ''bionic''\<rparr>,
      \<lparr>release = Cosmic, regexp = signature ''cosmic''\<rparr>,
      \<lparr>release = Disco, regexp = signature ''disco''\<rparr>,
      \<lparr>release = Precise, regexp = signature ''precise''\<rparr>,
      \<lparr>release = Trusty, regexp = signature ''trusty''\<rparr>,
      \<lparr>release = Xenial, regexp = signature ''xenial''\<rparr>,
      \<lparr>release = Eoan, regexp = signature ''eoan''\<rparr>,
      \<lparr>release = Focal, regexp = signature ''focal''\<rparr>,
      \<lparr>release = Impish, regexp = signature ''impish''\<rparr>]"

definition osReleasePath :: string where
  "osReleasePath = ''etc/os-release''"

definition lsbReleasePath :: string where
  "lsbReleasePath = ''etc/lsb-release''"

text \<open>
  \<open>parse\<close> (lines 121 to 128). \<open>Match\<close> is the regular-expression engine of the
  standard library (\<open>Match pattern content\<close> is
  \<^verbatim>\<open>regexp.MustCompile(pattern).Match(content)\<close>) and \<open>releaseToDist\<close> the function of
  package ubuntu that returns the distribution of a release as a pointer (\<open>None\<close> is
  nil); neither is defined in distributionscanner.go, so both are parameters.
\<close>

fun match_first ::
  "(string \<Rightarrow> bytes \<Rightarrow> bool) \<Rightarrow> (Release \<Rightarrow> 'd option) \<Rightarrow> ubuntuRegex list \<Rightarrow> bytes \<Rightarrow> 'd option"
where
  "match_first Match releaseToDist [] buff = None"
| "match_first Match releaseToDist (ur # urs) buff =
     (if Match (regexp ur) buff then releaseToDist (release ur)
      else match_first Match releaseToDist urs buff)"

definition parse ::
  "(string \<Rightarrow> bytes \<Rightarrow> bool) \<Rightarrow> (Release \<Rightarrow> 'd option) \<Rightarrow> bytes \<Rightarrow> 'd option"
where
  "parse Match releaseToDist buff = match_first Match releaseToDist ubuntuRegexes buff"

text \<open>
  Lines 108 to 114. \<open>files\<close> is the map that \<^verbatim>\<open>l.Files\<close> returned, as the list of its
  entries (path and content) in the order in which \<^verbatim>\<open>for _, buff := range files\<close> visits
  them. A slice is \<open>Some\<close> of its elements, the nil slice is \<open>None\<close>.
\<close>

fun range_files ::
  "(string \<Rightarrow> bytes \<Rightarrow> bool) \<Rightarrow> (Release \<Rightarrow> 'd option) \<Rightarrow> (string \<times> bytes) list
     \<Rightarrow> 'd list option \<times> go_error option"
where
  "range_files Match releaseToDist [] = (Some [], None)"
| "range_files Match releaseToDist ((path, buff) # files) =
     (case parse Match releaseToDist buff of
        Some dist \<Rightarrow> (Some [dist], None)
      | None \<Rightarrow> range_files Match releaseToDist files)"

text \<open>
  Modelled from the spec: the result of \<^verbatim>\<open>Layer.Files\<close>, whose declaration is not in
  distributionscanner.go. The spec gives a mapping from path to content, or a failure;
  Go does not specify the order in which a \<^verbatim>\<open>range\<close> statement visits the entries of a
  map, so the argument of \<open>Scan\<close> is the outcome of
  \<^verbatim>\<open>l.Files(osReleasePath, lsbReleasePath)\<close>: \<open>Inl err\<close>, or \<open>Inr\<close> of the entries of
  the map in the order of the visit.
\<close>

type_synonym files_result = "go_error + (string \<times> bytes) list"

text \<open>\<open>DistributionScanner.Scan\<close> (lines 95 to 115).\<close>

definition ubuntu_Scan ::
  "(string \<Rightarrow> bytes \<Rightarrow> bool) \<Rightarrow> (Release \<Rightarrow> 'd option) \<Rightarrow> files_result
     \<Rightarrow> 'd list option \<times> go_error option"
where
  "ubuntu_Scan Match releaseToDist files_err =
     (case files_err of
        Inl err \<Rightarrow> (None, None)
      | Inr files \<Rightarrow> range_files Match releaseToDist files)"

text \<open>
  Modelled from the spec: \<^verbatim>\<open>Layer.Files\<close>, whose code is not in the sources of the
  scanners. The spec gives its contract as "Files(paths...) gives a mapping from path to
  content-or-absent, and fails only on an unreadable archive". A layer is the error of
  reading its archive (\<open>None\<close>: the archive is readable) and the files it holds. On
  a readable archive the result holds every requested path that the layer holds, with
  its content, and no entry for a requested path that the layer does not hold; the
  entries stand in the order of the request.
\<close>

record probe_layer =
  unreadable :: "go_error option"
  held :: "string \<rightharpoonup> bytes"

definition Files :: "probe_layer \<Rightarrow> string list \<Rightarrow> files_result" where
  "Files l paths =
     (case unreadable l of
        Some err \<Rightarrow> Inl err
      | None \<Rightarrow>
          Inr (concat (map (\<lambda>p. case held l p of None \<Rightarrow> [] | Some c \<Rightarrow> [(p, c)]) paths)))"

text \<open>A readable layer that holds \<^verbatim>\<open>etc/hostname\<close> and neither probe file.\<close>

definition hostname_layer :: probe_layer where
  "hostname_layer = \<lparr>unreadable = None, held = [''etc/hostname'' \<mapsto> ''box'']\<rparr>"

text \<open>No signature of the list matches the content.\<close>

definition no_signature :: "(string \<Rightarrow> bytes \<Rightarrow> bool) \<Rightarrow> bytes \<Rightarrow> bool" where
  "no_signature Match buff = list_all (\<lambda>ur. \<not> Match (regexp ur) buff) ubuntuRegexes"

subsection \<open>An engine for the ten signatures\<close>

text \<open>
  The theorems below hold for every engine. To run the scanner on a concrete content
  the parameter \<open>Match\<close> is instantiated with \<open>signature_Match\<close>, which follows the
  semantics of package regexp for a pattern
  \<^verbatim>\<open>(?is)\b\<close>\<open>A\<close>\<^verbatim>\<open>\b.*\b\<close>\<open>B\<close>\<^verbatim>\<open>\b\<close> with two lower-case ASCII words
  \<open>A\<close> and \<open>B\<close> on ASCII content: a case-insensitive occurrence of \<open>A\<close> between two
  word boundaries and, anywhere after it, one of \<open>B\<close>. A word boundary is a position
  with a word character (\<^verbatim>\<open>[0-9A-Za-z_]\<close>) on exactly one side.
\<close>

definition is_word_char :: "char \<Rightarrow> bool" where
  "is_word_char c =
     (let n = (of_char c :: nat)
      in (48 \<le> n \<and> n \<le> 57) \<or> (65 \<le> n \<and> n \<le> 90) \<or> (97 \<le> n \<and> n \<le> 122) \<or> n = 95)"

definition to_lower :: "char \<Rightarrow> char" where
  "to_lower c =
     (let n = (of_char c :: nat) in if 65 \<le> n \<and> n \<le> 90 then char_of (n + 32) else c)"

definition word_at_index :: "bytes \<Rightarrow> nat \<Rightarrow> bool" where
  "word_at_index s i = (i < length s \<and> is_word_char (s ! i))"

definition boundary :: "bytes \<Rightarrow> nat \<Rightarrow> bool" where
  "boundary s i = ((0 < i \<and> word_at_index s (i - 1)) \<noteq> word_at_index s i)"

definition word_at :: "string \<Rightarrow> bytes \<Rightarrow> nat \<Rightarrow> bool" where
  "word_at w s i =
     (boundary s i \<and> map to_lower (take (length w) (drop i s)) = w
      \<and> boundary s (i + length w))"

definition words_Match :: "string \<Rightarrow> string \<Rightarrow> bytes \<Rightarrow> bool" where
  "words_Match a b s =
     list_ex (\<lambda>i. word_at a s i
        \<and> list_ex (\<lambda>j. word_at b s j) [i + length a ..< Suc (length s)])
       [0 ..< Suc (length s)]"

fun split_at :: "string \<Rightarrow> string \<Rightarrow> string \<Rightarrow> (string \<times> string) option" where
  "split_at sep seen [] = None"
| "split_at sep seen (c # cs) =
     (if HasPrefix (c # cs) sep then Some (seen, drop (length sep) (c # cs))
      else split_at sep (seen @ [c]) cs)"

definition pattern_words :: "string \<Rightarrow> (string \<times> string) option" where
  "pattern_words pat =
     (if HasPrefix pat (''(?is)'' @ bb) \<and> HasSuffix pat bb
      then split_at (bb @ ''.*'' @ bb) [] (take (length pat - 9) (drop 7 pat))
      else None)"

definition signature_Match :: "string \<Rightarrow> bytes \<Rightarrow> bool" where
  "signature_Match pat s =
     (case pattern_words pat of
        None \<Rightarrow> False
      | Some (a, b) \<Rightarrow> words_Match a b s)"

section \<open>The dpkg package scanner: properties\<close>

subsection \<open>The search for the status file\<close>

lemma find_status_cases:
  "(find_status fn hs e = (Some e, None) \<and> (\<forall>h\<in>set hs. Clean (hdr_Name h) \<noteq> fn))
   \<or> (\<exists>h\<in>set hs. Clean (hdr_Name h) = fn \<and> find_status fn hs e = (None, Some h))"
  by (induction hs) auto


text \<open>The locate pass ends without an error only at \<^verbatim>\<open>io.EOF\<close>.\<close>

lemma locate_Inr_EOF: "locate hs e loc = Inr loc' \<Longrightarrow> e = EOF"
  by (induction hs arbitrary: loc) (auto split: if_splits)

subsection \<open>The branch that panics is never taken\<close>

text \<open>
  After the search loop \<open>db\<close> is nil only when \<open>err\<close> is not nil, and the two cases
  of the switch before \<^verbatim>\<open>case db == nil\<close> take every \<open>err\<close> that is not nil.
\<close>

lemma examine_no_Panic: "examine parser md5 l p pkgs \<noteq> Stop (Panic s)"
  using find_status_cases [of "Join p ''status''" "entries l" "end_err l"]
  by (auto simp add: examine_def Let_def split: prod.splits)

lemma range_loc_no_Panic: "range_loc parser md5 l ds pkgs \<noteq> Panic s"
proof (induction ds arbitrary: pkgs)
  case Nil
  show ?case by simp
next
  case (Cons d ds)
  obtain p x where d: "d = (p, x)" by (cases d)
  show ?case
    using Cons.IH examine_no_Panic [of parser md5 l p pkgs s]
    by (auto simp add: d split: round.splits)
qed

lemma dpkg_Scan_no_Panic: "dpkg_Scan parser md5 rng l \<noteq> Panic s"
  using range_loc_no_Panic [of parser md5 l _ "[]" s]
  by (auto simp add: dpkg_Scan_def split: option.splits sum.splits)

subsection \<open>The rounds of the loop over the directories\<close>

lemma dpkg_Scan_range_loc:
  assumes "Reader_err l = None" and "is_ReadSeeker l"
    and "locate (entries l) (end_err l) [] = Inr loc"
  shows "dpkg_Scan parser md5 rng l = range_loc parser md5 l (rng loc) []"
  using assms by (simp add: dpkg_Scan_def)

lemma examine_EOF:
  assumes "\<not> seek_failed l" and "end_err l = EOF"
  shows "examine parser md5 l p pkgs = Stop (Return (None, None))
         \<or> (\<exists>pkgs'. examine parser md5 l p pkgs = Next pkgs')"
  using find_status_cases [of "Join p ''status''" "entries l" "end_err l"] assms
  by (auto simp add: examine_def Let_def split: prod.splits)

lemma examine_missing:
  assumes "\<not> seek_failed l"
    and "errors_Is_EOF (fst (find_status (Join p ''status'') (entries l) (end_err l)))"
  shows "examine parser md5 l p pkgs = Stop (Return (None, None))"
  using assms by (auto simp add: examine_def Let_def split: prod.splits)

text \<open>
  One directory of score 2 whose status file is not reached makes the whole scan
  absent, wherever the directory stands in the visit and whatever the rounds before it
  found.
\<close>

lemma range_loc_absent:
  assumes "\<not> seek_failed l" and "end_err l = EOF"
    and "errors_Is_EOF (fst (find_status (Join p ''status'') (entries l) (end_err l)))"
  shows "(p, 2) \<in> set ds \<Longrightarrow> range_loc parser md5 l ds pkgs = Return (None, None)"
proof (induction ds arbitrary: pkgs)
  case Nil
  then show ?case by simp
next
  case (Cons d ds)
  obtain q x where d: "d = (q, x)" by (cases d)
  show ?case
  proof (cases "d = (p, 2)")
    case True
    then show ?thesis using examine_missing [OF assms(1) assms(3)] by simp
  next
    case False
    then have in_ds: "(p, 2) \<in> set ds" using Cons.prems by simp
    show ?thesis
      using Cons.IH [OF in_ds] examine_EOF [OF assms(1) assms(2), of parser md5 q pkgs]
      by (auto simp add: d)
  qed
qed

lemma range_loc_filter:
  "range_loc parser md5 l ds pkgs = range_loc parser md5 l (filter (\<lambda>(p, x). x = 2) ds) pkgs"
  by (induction ds arbitrary: pkgs) (auto split: round.splits)

subsection \<open>The pass over the metadata files changes nothing but \<open>RepositoryHint\<close>\<close>

lemma length_add_hints: "length (add_hints md5 prefix found hs pkgs) = length pkgs"
  by (induction hs arbitrary: pkgs) (auto simp add: Let_def split: option.splits)

text \<open>
  \<open>found\<close> holds pointers into \<open>pkgs\<close> only: every index it gives is in range, in
  the extract pass and, since the pass over the metadata files keeps the length, in
  every update of that pass.
\<close>

lemma add_packages_in_range:
  assumes "add_packages fn sts (found, pkgs) = (found', pkgs')"
    and "\<And>n i. found n = Some i \<Longrightarrow> i < length pkgs"
  shows "found' n = Some i \<Longrightarrow> i < length pkgs'"
  using assms
proof (induction sts arbitrary: found pkgs)
  case Nil
  then show ?case by simp
next
  case (Cons st sts)
  let ?p = "new_package fn st"
  have step: "add_packages fn sts (found(Name ?p \<mapsto> length pkgs), pkgs @ [?p]) = (found', pkgs')"
    using Cons.prems(2) by (simp add: Let_def)
  have inv: "\<And>m j. (found(Name ?p \<mapsto> length pkgs)) m = Some j \<Longrightarrow> j < length (pkgs @ [?p])"
    using Cons.prems(3) by (auto simp add: less_Suc_eq split: if_splits)
  show ?case
    using Cons.IH [OF Cons.prems(1) step inv] .
qed



subsection \<open>One package for every stanza read\<close>











subsection \<open>The claims about the dpkg scanner\<close>

text \<open>
  Claim C1. The locate pass counts the regular file \<^verbatim>\<open>d/status/\<close> as the file
  \<open>status\<close> of the directory \<^verbatim>\<open>d/status\<close> (\<^verbatim>\<open>filepath.Base\<close> drops the separator at
  the end of the name, \<^verbatim>\<open>filepath.Dir\<close> keeps the last element), and with
  \<^verbatim>\<open>d/status/available\<close> the directory has the score 2. The extract pass then looks
  for \<^verbatim>\<open>d/status/status\<close>, which no entry has: the file that was counted is not found
  again. The search loop ends with \<^verbatim>\<open>io.EOF\<close>, the first case of the switch returns, and
  \<open>Scan\<close> returns (nil, nil): it reports no failure of the scan. The branch
  \<^verbatim>\<open>case db == nil\<close>, which logs the error and panics with "file existed, but now
  doesn't", is behind the two cases that take every \<open>err\<close> that is not nil, and \<open>db\<close>
  is nil only when \<open>err\<close> is not nil (lemma \<open>dpkg_Scan_no_Panic\<close>: \<open>Scan\<close> never
  panics).
\<close>

theorem dpkg_Scan_lost_status_is_absent:
  "map (\<lambda>h. (Base (hdr_Name h), Dir (hdr_Name h), counted h)) (entries lost_status_layer)
     = [(''status'', ''d/status'', True), (''available'', ''d/status'', True)] \<and>
   locate (entries lost_status_layer) (end_err lost_status_layer) [] = Inr [(''d/status'', 2)] \<and>
   Join ''d/status'' ''status'' = ''d/status/status'' \<and>
   map (\<lambda>h. Clean (hdr_Name h)) (entries lost_status_layer)
     = [''d/status'', ''d/status/available''] \<and>
   find_status ''d/status/status'' (entries lost_status_layer) (end_err lost_status_layer)
     = (Some EOF, None) \<and>
   dpkg_Scan status_parser digest_stub id lost_status_layer = Return (None, None)"
  by code_simp

text \<open>
  Claim C9. When the locate pass gave a directory \<open>p\<close> the score 2 and the search
  for the status file of \<open>p\<close> ends with \<^verbatim>\<open>io.EOF\<close> (the archive ends before an entry
  with the cleaned name of the status file is reached), \<open>Scan\<close> returns absent,
  (nil, nil), and no error.
\<close>

theorem dpkg_Scan_EOF_before_status:
  assumes "Reader_err l = None" and "is_ReadSeeker l" and "\<not> seek_failed l"
    and "locate (entries l) (end_err l) [] = Inr loc"
    and "(p, 2) \<in> set (rng loc)"
    and "errors_Is_EOF (fst (find_status (Join p ''status'') (entries l) (end_err l)))"
  shows "dpkg_Scan parser digest rng l = Return (None, None)"
proof -
  have "end_err l = EOF" using assms(4) by (rule locate_Inr_EOF)
  then have "range_loc parser digest l (rng loc) [] = Return (None, None)"
    using assms(3,5,6) range_loc_absent by blast
  then show ?thesis using assms(1,2,4) by (simp add: dpkg_Scan_range_loc)
qed

theorem dpkg_Scan_EOF_before_status_witness:
  "locate (entries unclean_available_layer) (end_err unclean_available_layer) []
     = Inr [(''opt/dpkg'', 2)] \<and>
   find_status ''opt/dpkg/status'' (entries unclean_available_layer)
       (end_err unclean_available_layer) = (Some EOF, None) \<and>
   dpkg_Scan status_parser digest_stub id unclean_available_layer = Return (None, None)"
proof -
  have h1: "Reader_err unclean_available_layer = None" by code_simp
  have h2: "is_ReadSeeker unclean_available_layer" by code_simp
  have h3: "\<not> seek_failed unclean_available_layer" by code_simp
  have h4: "locate (entries unclean_available_layer) (end_err unclean_available_layer) []
              = Inr [(''opt/dpkg'', 2)]"
    by code_simp
  have h5: "(''opt/dpkg'', 2) \<in> set (id [(''opt/dpkg'', 2::int)])" by simp
  have h6: "errors_Is_EOF (fst (find_status (Join ''opt/dpkg'' ''status'')
              (entries unclean_available_layer) (end_err unclean_available_layer)))"
    by code_simp
  have h7: "find_status ''opt/dpkg/status'' (entries unclean_available_layer)
              (end_err unclean_available_layer) = (Some EOF, None)"
    by code_simp
  show ?thesis
    using dpkg_Scan_EOF_before_status
      [where l = unclean_available_layer and rng = id and parser = status_parser
         and digest = digest_stub and p = "''opt/dpkg''" and loc = "[(''opt/dpkg'', 2)]",
       OF h1 h2 h3 h4 h5 h6]
      h4 h7
    by simp
qed







text \<open>
  Claim C3. The score of a directory is the number of entries of the archive that are
  regular files named \<open>status\<close> or \<open>available\<close> in it, not the number of the two
  names found. On the archive that holds \<^verbatim>\<open>var/lib/dpkg/status\<close> twice and no file
  named \<open>available\<close>, the directory has only one of the two required files and the
  score 2: it is examined as a database and its package is returned.
\<close>

theorem dpkg_Scan_examines_status_twice:
  "filter (\<lambda>h. Base (hdr_Name h) = ''available'') (entries status_twice_layer) = [] \<and>
   locate (entries status_twice_layer) (end_err status_twice_layer) []
     = Inr [(''var/lib/dpkg'', 2)] \<and>
   dpkg_Scan status_parser digest_stub id status_twice_layer =
     Return (Some [Package ''foo'' ''1.0'' BINARY None ''var/lib/dpkg/status'' [] ''amd64''],
             None)"
  by code_simp

text \<open>
  Claim C8. The pass over the metadata files compares the name of an entry as the
  archive has it with the prefix built from the cleaned directory, where the search
  for the status file cleans the name of the entry first. For the same database, with
  the metadata file \<^verbatim>\<open>info/foo.md5sums\<close> of the package \<open>foo\<close>: when the names of the
  archive start with \<open>./\<close> the database is found and the package extracted, and its
  \<open>RepositoryHint\<close> stays empty; when they do not, \<open>RepositoryHint\<close> is the digest of
  the bytes of the metadata file, hex-encoded. This holds for every digest.
\<close>

theorem dpkg_Scan_no_hint_for_unclean_name:
  "dpkg_Scan status_parser digest id dot_foo_layer =
     Return (Some [Package ''foo'' ''1.0'' BINARY None ''var/lib/dpkg/status'' [] ''amd64''],
             None) \<and>
   dpkg_Scan status_parser digest id foo_layer =
     Return (Some [Package ''foo'' ''1.0'' BINARY None ''var/lib/dpkg/status''
                     (EncodeToString (digest ''abc'')) ''amd64''],
             None)"
  by code_simp

subsection \<open>The order of the visit of \<open>loc\<close>\<close>

text \<open>
  \<open>loc\<close> is a Go map (line 87) and \<^verbatim>\<open>for p, x := range loc\<close> visits it in an order
  that Go leaves open. On the layer with the two databases \<open>a\<close> and \<open>b\<close> the two
  orders of the visit return the two packages in two different orders.
\<close>

lemma dpkg_Scan_depends_on_visit_order:
  "locate (entries two_databases_layer) (end_err two_databases_layer) []
     = Inr [(''a'', 2), (''b'', 2)] \<and>
   dpkg_Scan status_parser digest_stub id two_databases_layer =
     Return (Some [Package ''foo'' ''1.0'' BINARY None ''a/status'' [] ''amd64'',
                   Package ''foo'' ''1.0'' BINARY
                     (Some (Package ''bar'' ''1.0'' SOURCE None ''b/status'' [] []))
                     ''b/status'' [] ''amd64''],
             None) \<and>
   dpkg_Scan status_parser digest_stub rev two_databases_layer =
     Return (Some [Package ''foo'' ''1.0'' BINARY
                     (Some (Package ''bar'' ''1.0'' SOURCE None ''b/status'' [] []))
                     ''b/status'' [] ''amd64'',
                   Package ''foo'' ''1.0'' BINARY None ''a/status'' [] ''amd64''],
             None)"
  by code_simp

section \<open>The Ubuntu distribution scanner: properties\<close>

lemma match_first_None:
  "list_all (\<lambda>ur. \<not> Match (regexp ur) buff) urs \<Longrightarrow> match_first Match rtd urs buff = None"
  by (induction urs) auto

lemma match_first_earliest:
  "i < length urs \<Longrightarrow> Match (regexp (urs ! i)) buff
    \<Longrightarrow> (\<And>k. k < i \<Longrightarrow> \<not> Match (regexp (urs ! k)) buff)
    \<Longrightarrow> match_first Match rtd urs buff = rtd (release (urs ! i))"
proof (induction urs arbitrary: i)
  case Nil
  then show ?case by simp
next
  case (Cons ur urs)
  show ?case
  proof (cases i)
    case 0
    with Cons.prems(2) show ?thesis by simp
  next
    case (Suc j)
    have first: "\<not> Match (regexp ur) buff"
      using Cons.prems(3) [of 0] Suc by simp
    have later: "\<And>k. k < j \<Longrightarrow> \<not> Match (regexp (urs ! k)) buff"
      using Cons.prems(3) Suc by fastforce
    have "match_first Match rtd urs buff = rtd (release (urs ! j))"
      using Cons.IH [of j] Cons.prems(1,2) Suc later by simp
    with first Suc show ?thesis by simp
  qed
qed

lemma range_files_no_match:
  "list_all (\<lambda>(path, buff). no_signature Match buff) files
    \<Longrightarrow> range_files Match rtd files = (Some [], None)"
  by (induction files) (auto simp: parse_def no_signature_def match_first_None)

lemma range_files_no_error: "snd (range_files Match rtd files) = None"
  by (induction files) (auto split: option.splits)

lemma signature_Match_bionic_beaver:
  "signature_Match (regexp (ubuntuRegexes ! 1)) ''Ubuntu 18.04 (Bionic Beaver)''"
  by code_simp

lemma no_signature_debian: "no_signature signature_Match ''ID=debian''"
  by code_simp

lemma xenial_bionic_matches:
  "signature_Match (regexp (ubuntuRegexes ! 1)) ''Ubuntu xenial bionic''"
  "signature_Match (regexp (ubuntuRegexes ! 6)) ''Ubuntu xenial bionic''"
  "\<not> signature_Match (regexp (ubuntuRegexes ! 0)) ''Ubuntu xenial bionic''"
  by code_simp+

text \<open>
  Claim C10. \<open>Scan\<close> of the Ubuntu distribution scanner never returns an error:
  whatever \<^verbatim>\<open>l.Files\<close> gave, the error of the result is nil; and when \<^verbatim>\<open>l.Files\<close>
  failed, with any error, the failure is dropped and the result is absent, (nil, nil).
\<close>

theorem ubuntu_Scan_never_fails:
  "snd (ubuntu_Scan Match releaseToDist files_err) = None
   \<and> ubuntu_Scan Match releaseToDist (Inl err) = (None, None)"
  by (cases files_err) (simp_all add: ubuntu_Scan_def range_files_no_error)

theorem ubuntu_Scan_never_fails_witness:
  "snd (ubuntu_Scan signature_Match Some
          (Inr [(osReleasePath, ''Ubuntu 18.04 (Bionic Beaver)'')])) = None
   \<and> ubuntu_Scan signature_Match Some (Inl (Err ''unreadable archive''))
       = (None :: Release list option, None)"
  using ubuntu_Scan_never_fails
    [of signature_Match Some "Inr [(osReleasePath, ''Ubuntu 18.04 (Bionic Beaver)'')]"
      "Err ''unreadable archive''"]
  by simp

text \<open>
  Claim C4. With \<^verbatim>\<open>Layer.Files\<close> as the specification gives it, the call succeeds on
  every readable layer. On a readable layer that holds neither probe file the map it
  returns is empty, the loop of \<open>Scan\<close> has nothing to visit, and \<open>Scan\<close> returns
  the empty slice that is not nil, with no error: the result of "files found, no
  match", not absent. \<open>Scan\<close> returns absent, (nil, nil), only when \<^verbatim>\<open>l.Files\<close>
  fails. The doc comment of \<open>Scan\<close> says "If neither file is found a (nil,nil) is
  returned".
\<close>

theorem ubuntu_Scan_without_probe_files:
  assumes "unreadable l = None"
    and "held l osReleasePath = None"
    and "held l lsbReleasePath = None"
  shows "Files l [osReleasePath, lsbReleasePath] = Inr [] \<and>
         ubuntu_Scan Match releaseToDist (Files l [osReleasePath, lsbReleasePath])
           = (Some [], None)"
  using assms by (simp add: ubuntu_Scan_def Files_def)

theorem ubuntu_Scan_without_probe_files_witness:
  "unreadable hostname_layer = None \<and>
   held hostname_layer osReleasePath = None \<and>
   held hostname_layer lsbReleasePath = None \<and>
   Files hostname_layer [osReleasePath, lsbReleasePath] = Inr [] \<and>
   ubuntu_Scan signature_Match (Some :: Release \<Rightarrow> Release option)
       (Files hostname_layer [osReleasePath, lsbReleasePath])
     = (Some [], None) \<and>
   ubuntu_Scan signature_Match (Some :: Release \<Rightarrow> Release option)
       (Files hostname_layer [osReleasePath, lsbReleasePath])
     \<noteq> (None, None)"
proof -
  have h1: "unreadable hostname_layer = None" by code_simp
  have h2: "held hostname_layer osReleasePath = None" by code_simp
  have h3: "held hostname_layer lsbReleasePath = None" by code_simp
  have r: "Files hostname_layer [osReleasePath, lsbReleasePath] = Inr [] \<and>
      ubuntu_Scan signature_Match (Some :: Release \<Rightarrow> Release option)
          (Files hostname_layer [osReleasePath, lsbReleasePath])
        = (Some [], None)"
    using h1 h2 h3 by (rule ubuntu_Scan_without_probe_files)
  then have e: "ubuntu_Scan signature_Match (Some :: Release \<Rightarrow> Release option)
       (Files hostname_layer [osReleasePath, lsbReleasePath])
     = (Some [], None)"
    by (rule conjunct2)
  have "ubuntu_Scan signature_Match (Some :: Release \<Rightarrow> Release option)
       (Files hostname_layer [osReleasePath, lsbReleasePath])
     \<noteq> (None, None)"
    unfolding e by simp
  then show ?thesis using h1 h2 h3 r by blast
qed

text \<open>
  The second half of the claim holds for every outcome of \<^verbatim>\<open>l.Files\<close> with files in
  it: when no signature matches the content of any file found, \<open>Scan\<close> returns the
  empty slice that is not nil, and no error.
\<close>

lemma ubuntu_Scan_no_match:
  "list_all (\<lambda>(path, buff). no_signature Match buff) files
    \<Longrightarrow> ubuntu_Scan Match releaseToDist (Inr files) = (Some [], None)"
  by (simp add: ubuntu_Scan_def range_files_no_match)

text \<open>
  Claim C5. The signatures are tried in the order of the list: when the content of a
  probe file matches the signature at position \<open>i\<close> and no signature before it,
  \<open>parse\<close> returns the distribution of the release of signature \<open>i\<close>, whichever
  later signatures match as well.
\<close>

theorem parse_earliest_signature:
  assumes "i < length ubuntuRegexes"
    and "Match (regexp (ubuntuRegexes ! i)) buff"
    and "\<forall>k<i. \<not> Match (regexp (ubuntuRegexes ! k)) buff"
  shows "parse Match releaseToDist buff = releaseToDist (release (ubuntuRegexes ! i))"
  unfolding parse_def using assms by (intro match_first_earliest) auto

theorem parse_earliest_signature_witness:
  "signature_Match (regexp (ubuntuRegexes ! 1)) ''Ubuntu xenial bionic''
   \<and> signature_Match (regexp (ubuntuRegexes ! 6)) ''Ubuntu xenial bionic''
   \<and> release (ubuntuRegexes ! 1) = Bionic
   \<and> release (ubuntuRegexes ! 6) = Xenial
   \<and> parse signature_Match Some ''Ubuntu xenial bionic'' = Some Bionic"
proof -
  have less: "(1::nat) < length ubuntuRegexes"
    by (simp add: ubuntuRegexes_def)
  have before: "\<forall>k<(1::nat). \<not> signature_Match (regexp (ubuntuRegexes ! k)) ''Ubuntu xenial bionic''"
    using xenial_bionic_matches(3) by simp
  have "parse signature_Match Some ''Ubuntu xenial bionic''
          = Some (release (ubuntuRegexes ! 1))"
    using parse_earliest_signature
      [of 1 signature_Match "''Ubuntu xenial bionic''" Some] less xenial_bionic_matches(1) before
    by blast
  moreover have "release (ubuntuRegexes ! 1) = Bionic" "release (ubuntuRegexes ! 6) = Xenial"
    by (simp_all add: ubuntuRegexes_def)
  ultimately show ?thesis
    using xenial_bionic_matches(1,2) by simp
qed

text \<open>
  Claim C2. Two runs of \<open>Scan\<close> on the same layer need not return the same result.
  The files found are a Go map, and the loop returns at the first file, in the order
  of the visit, that matches a signature. On the map that holds an os-release file of
  Ubuntu Bionic and an lsb-release file of Ubuntu Xenial, a visit that starts with
  os-release returns Bionic and a visit that starts with lsb-release returns Xenial:
  the two lists below are the same map.
\<close>

theorem ubuntu_Scan_depends_on_visit_order:
  "map_of [(osReleasePath, ''Ubuntu bionic''), (lsbReleasePath, ''Ubuntu xenial'')]
     = map_of [(lsbReleasePath, ''Ubuntu xenial''), (osReleasePath, ''Ubuntu bionic'')]
   \<and> ubuntu_Scan signature_Match Some
        (Inr [(osReleasePath, ''Ubuntu bionic''), (lsbReleasePath, ''Ubuntu xenial'')])
       = (Some [Bionic], None)
   \<and> ubuntu_Scan signature_Match Some
        (Inr [(lsbReleasePath, ''Ubuntu xenial''), (osReleasePath, ''Ubuntu bionic'')])
       = (Some [Xenial], None)"
proof -
  have "map_of [(osReleasePath, ''Ubuntu bionic''), (lsbReleasePath, ''Ubuntu xenial'')]
     = map_of [(lsbReleasePath, ''Ubuntu xenial''), (osReleasePath, ''Ubuntu bionic'')]"
    by (simp add: fun_eq_iff osReleasePath_def lsbReleasePath_def)
  moreover have "ubuntu_Scan signature_Match Some
        (Inr [(osReleasePath, ''Ubuntu bionic''), (lsbReleasePath, ''Ubuntu xenial'')])
       = (Some [Bionic], None)"
    by code_simp
  moreover have "ubuntu_Scan signature_Match Some
        (Inr [(lsbReleasePath, ''Ubuntu xenial''), (osReleasePath, ''Ubuntu bionic'')])
       = (Some [Xenial], None)"
    by code_simp
  ultimately show ?thesis by simp
qed

end
